theory Spec2Isabelle
  imports Complex_Main "HOL-Library.Word" "HOL-Library.Sublist"
begin

section \<open>Strings of the host language\<close>

text \<open>
  A JavaScript string is a sequence of 16-bit code units. Literals of the source that
  are plain ASCII are written through \<open>js\<close>; the few non-ASCII literals are given by
  their code units.
\<close>

type_synonym jschar = "16 word"
type_synonym jsstring = "jschar list"

definition js :: "string \<Rightarrow> jsstring" where
  "js s = map of_char s"

text \<open>
  The relational operators on two strings compare code units lexicographically
  (\<open>a < b\<close>); \<open>a >= b\<close> is the negation of \<open>a < b\<close> and \<open>a <= b\<close> the
  negation of \<open>b < a\<close>.
\<close>

fun js_lt :: "jsstring \<Rightarrow> jsstring \<Rightarrow> bool" where
  "js_lt [] [] = False"
| "js_lt [] (y # ys) = True"
| "js_lt (x # xs) [] = False"
| "js_lt (x # xs) (y # ys) = (if x = y then js_lt xs ys else x < y)"

definition js_ge :: "jsstring \<Rightarrow> jsstring \<Rightarrow> bool" where
  "js_ge a b = (\<not> js_lt a b)"

definition js_le :: "jsstring \<Rightarrow> jsstring \<Rightarrow> bool" where
  "js_le a b = (\<not> js_lt b a)"

text \<open>
  White space as \<open>String.prototype.trim\<close> and the regular-expression class \<open>\s\<close>
  understand it: TAB, LF, VT, FF, CR, SP, NBSP, U+1680, U+2000..U+200A, LS, PS,
  U+202F, U+205F, U+3000 and the byte-order mark.
\<close>

definition is_space :: "jschar \<Rightarrow> bool" where
  "is_space c =
     ((0x09 \<le> c \<and> c \<le> 0x0D) \<or> c = 0x20 \<or> c = 0xA0 \<or> c = 0x1680
      \<or> (0x2000 \<le> c \<and> c \<le> 0x200A) \<or> c = 0x2028 \<or> c = 0x2029
      \<or> c = 0x202F \<or> c = 0x205F \<or> c = 0x3000 \<or> c = 0xFEFF)"

definition trim :: "jsstring \<Rightarrow> jsstring" where
  "trim s = rev (dropWhile is_space (rev (dropWhile is_space s)))"

text \<open>
  \<open>s.replace(/lit/g, rep)\<close> for a pattern that is a literal, non-empty run of
  characters: every occurrence, scanning left to right, occurrences not overlapping.
\<close>

fun replace_all :: "jsstring \<Rightarrow> jsstring \<Rightarrow> jsstring \<Rightarrow> jsstring" where
  "replace_all pat rep [] = []"
| "replace_all pat rep (c # cs) =
     (if pat \<noteq> [] \<and> prefix pat (c # cs)
      then rep @ replace_all pat rep (drop (length pat - 1) cs)
      else c # replace_all pat rep cs)"

text \<open>
  \<open>/^[C]+$/.test(s)\<close> for a character class \<open>C\<close>, no flags: one or more characters
  of the class, then the end of the input.
\<close>

fun class_plus_to_end :: "(jschar \<Rightarrow> bool) \<Rightarrow> jsstring \<Rightarrow> bool" where
  "class_plus_to_end C [] = False"
| "class_plus_to_end C (c # cs) = (C c \<and> (cs = [] \<or> class_plus_to_end C cs))"


section \<open>Numbers of the host language\<close>

text \<open>
  A Number is an IEEE 754 double: not-a-number, an infinity or a zero with its sign
  (\<open>True\<close> for negative), or a finite value other than zero, held as the rational it
  denotes. The language definition gives every arithmetic result as the double nearest
  the exact result; the functions below compute it on rationals.
\<close>

datatype jsnum = NaN | Infinity bool | Zero bool | Finite rat

text \<open>
  \<open>ipow b e\<close> is \<open>b\<close> to the power \<open>e\<close>, and \<open>floor_log b q\<close>, for positive \<open>q\<close>, the
  greatest \<open>e\<close> with \<open>ipow b e \<le> q\<close>: counted upwards when \<open>q \<ge> 1\<close>, downwards
  otherwise.
\<close>

definition ipow :: "nat \<Rightarrow> int \<Rightarrow> rat" where
  "ipow b e = (if 0 \<le> e then of_nat b ^ nat e else 1 / of_nat b ^ nat (- e))"

function ilog_up :: "nat \<Rightarrow> rat \<Rightarrow> int" where
  "ilog_up b q = (if b < 2 \<or> q < of_nat b then 0 else ilog_up b (q / of_nat b) + 1)"
  by pat_completeness auto
termination
proof (relation "measure (\<lambda>(b, q). nat \<lfloor>q\<rfloor>)")
  show "wf (measure (\<lambda>(b, q). nat \<lfloor>q\<rfloor>))" by simp
next
  fix b :: nat and q :: rat
  assume a: "\<not> (b < 2 \<or> q < of_nat b)"
  then have b: "2 \<le> (of_nat b :: rat)" and q: "of_nat b \<le> q" by simp_all
  have "q / of_nat b \<le> q / 2"
    using b q by (intro divide_left_mono) simp_all
  also have "\<dots> \<le> q - 1" using b q by simp
  finally have "\<lfloor>q / of_nat b\<rfloor> \<le> \<lfloor>q - 1\<rfloor>" by (rule floor_mono)
  moreover have "1 \<le> \<lfloor>q\<rfloor>" using b q by linarith
  ultimately show "((b, q / of_nat b), (b, q)) \<in> measure (\<lambda>(b, q). nat \<lfloor>q\<rfloor>)"
    by simp
qed

function ilog_down :: "nat \<Rightarrow> rat \<Rightarrow> int" where
  "ilog_down b q =
     (if b < 2 \<or> q \<le> 0 \<or> 1 \<le> q then 0 else ilog_down b (q * of_nat b) - 1)"
  by pat_completeness auto
termination
proof (relation "measure (\<lambda>(b, q). nat \<lceil>1 / q\<rceil>)")
  show "wf (measure (\<lambda>(b, q). nat \<lceil>1 / q\<rceil>))" by simp
next
  fix b :: nat and q :: rat
  assume a: "\<not> (b < 2 \<or> q \<le> 0 \<or> 1 \<le> q)"
  then have b: "2 \<le> (of_nat b :: rat)" and q: "0 < q" "q < 1" by simp_all
  have c: "2 \<le> \<lceil>1 / q\<rceil>" using q by (simp add: le_ceiling_iff)
  have "1 / (q * of_nat b) \<le> 1 / (q * 2)"
    using b q by (intro divide_left_mono) simp_all
  also have "\<dots> = (1 / q) / 2" by simp
  also have "\<dots> \<le> of_int \<lceil>1 / q\<rceil> / 2" by (simp add: divide_right_mono)
  also have "\<dots> \<le> of_int (\<lceil>1 / q\<rceil> - 1)" using c by simp
  finally have "\<lceil>1 / (q * of_nat b)\<rceil> \<le> \<lceil>1 / q\<rceil> - 1" by (rule ceiling_le)
  then show "((b, q * of_nat b), (b, q)) \<in> measure (\<lambda>(b, q). nat \<lceil>1 / q\<rceil>)"
    using c q by simp
qed

declare ilog_up.simps [simp del] ilog_down.simps [simp del]

definition floor_log :: "nat \<Rightarrow> rat \<Rightarrow> int" where
  "floor_log b q = (if 1 \<le> q then ilog_up b q else ilog_down b q)"

text \<open>
  Rounding to the nearest double. A double near \<open>a\<close> is a multiple of
  \<open>quantum a\<close>: 53 significant bits, and no exponent below \<open>-1074\<close>. Ties go to the
  even multiple; a result of \<open>2 ^ 1024\<close> or more is an infinity, and a result that
  rounds to nothing is a zero with the sign of the argument.
\<close>

definition round_half_even :: "rat \<Rightarrow> int" where
  "round_half_even q =
     (if q - of_int \<lfloor>q\<rfloor> < 1 / 2 then \<lfloor>q\<rfloor>
      else if 1 / 2 < q - of_int \<lfloor>q\<rfloor> then \<lfloor>q\<rfloor> + 1
      else if even \<lfloor>q\<rfloor> then \<lfloor>q\<rfloor> else \<lfloor>q\<rfloor> + 1)"

definition round_half_up :: "rat \<Rightarrow> int" where
  "round_half_up q = \<lfloor>q + 1 / 2\<rfloor>"

definition quantum :: "rat \<Rightarrow> rat" where
  "quantum a = ipow 2 (max (floor_log 2 a - 52) (- 1074))"

definition nearest :: "rat \<Rightarrow> rat" where
  "nearest a = of_int (round_half_even (a / quantum a)) * quantum a"

definition to_double :: "rat \<Rightarrow> jsnum" where
  "to_double q =
     (if q = 0 then Zero False
      else if 2 ^ 1024 \<le> nearest \<bar>q\<bar> then Infinity (q < 0)
      else if nearest \<bar>q\<bar> = 0 then Zero (q < 0)
      else Finite (if q < 0 then - nearest \<bar>q\<bar> else nearest \<bar>q\<bar>))"

text \<open>
  The arithmetic operators \<open>-x\<close>, \<open>x + y\<close>, \<open>x - y\<close>, \<open>x * y\<close>, \<open>x / y\<close> and
  \<open>x % y\<close> on Numbers, with the special cases for not-a-number, infinities and signed
  zeros that the language definition lists.
\<close>

fun negative :: "jsnum \<Rightarrow> bool" where
  "negative NaN = False"
| "negative (Infinity b) = b"
| "negative (Zero b) = b"
| "negative (Finite q) = (q < 0)"

fun mv :: "jsnum \<Rightarrow> rat" where
  "mv (Finite q) = q"
| "mv _ = 0"

fun num_neg :: "jsnum \<Rightarrow> jsnum" where
  "num_neg NaN = NaN"
| "num_neg (Infinity b) = Infinity (\<not> b)"
| "num_neg (Zero b) = Zero (\<not> b)"
| "num_neg (Finite q) = Finite (- q)"

fun num_add :: "jsnum \<Rightarrow> jsnum \<Rightarrow> jsnum" where
  "num_add NaN y = NaN"
| "num_add x NaN = NaN"
| "num_add (Infinity a) (Infinity b) = (if a = b then Infinity a else NaN)"
| "num_add (Infinity a) y = Infinity a"
| "num_add x (Infinity b) = Infinity b"
| "num_add (Zero a) (Zero b) = Zero (a \<and> b)"
| "num_add (Zero a) (Finite q) = Finite q"
| "num_add (Finite p) (Zero b) = Finite p"
| "num_add (Finite p) (Finite q) = to_double (p + q)"

definition num_sub :: "jsnum \<Rightarrow> jsnum \<Rightarrow> jsnum" where
  "num_sub x y = num_add x (num_neg y)"

fun num_mul :: "jsnum \<Rightarrow> jsnum \<Rightarrow> jsnum" where
  "num_mul NaN y = NaN"
| "num_mul x NaN = NaN"
| "num_mul (Infinity a) (Zero b) = NaN"
| "num_mul (Zero a) (Infinity b) = NaN"
| "num_mul (Infinity a) y = Infinity (a \<noteq> negative y)"
| "num_mul x (Infinity b) = Infinity (negative x \<noteq> b)"
| "num_mul (Zero a) y = Zero (a \<noteq> negative y)"
| "num_mul x (Zero b) = Zero (negative x \<noteq> b)"
| "num_mul (Finite p) (Finite q) = to_double (p * q)"

fun num_div :: "jsnum \<Rightarrow> jsnum \<Rightarrow> jsnum" where
  "num_div NaN y = NaN"
| "num_div x NaN = NaN"
| "num_div (Infinity a) (Infinity b) = NaN"
| "num_div (Infinity a) y = Infinity (a \<noteq> negative y)"
| "num_div x (Infinity b) = Zero (negative x \<noteq> b)"
| "num_div (Zero a) (Zero b) = NaN"
| "num_div (Zero a) (Finite q) = Zero (a \<noteq> (q < 0))"
| "num_div (Finite p) (Zero b) = Infinity ((p < 0) \<noteq> b)"
| "num_div (Finite p) (Finite q) = to_double (p / q)"

definition trunc :: "rat \<Rightarrow> int" where
  "trunc q = (if 0 \<le> q then \<lfloor>q\<rfloor> else \<lceil>q\<rceil>)"

fun num_rem :: "jsnum \<Rightarrow> jsnum \<Rightarrow> jsnum" where
  "num_rem NaN d = NaN"
| "num_rem n NaN = NaN"
| "num_rem (Infinity a) d = NaN"
| "num_rem n (Infinity b) = n"
| "num_rem n (Zero b) = NaN"
| "num_rem (Zero a) d = Zero a"
| "num_rem (Finite p) (Finite q) =
     (if p - q * of_int (trunc (p / q)) = 0 then Zero (p < 0)
      else to_double (p - q * of_int (trunc (p / q))))"

text \<open>\<open>Number.isInteger\<close> and \<open>Number.isFinite\<close>.\<close>

fun isInteger :: "jsnum \<Rightarrow> bool" where
  "isInteger (Zero b) = True"
| "isInteger (Finite q) = (of_int \<lfloor>q\<rfloor> = q)"
| "isInteger _ = False"

fun isFinite :: "jsnum \<Rightarrow> bool" where
  "isFinite (Zero b) = True"
| "isFinite (Finite q) = True"
| "isFinite _ = False"

subsection \<open>Decimal digits\<close>

definition digit_char :: "nat \<Rightarrow> jschar" where
  "digit_char d = of_nat (48 + d)"

function decimal :: "nat \<Rightarrow> jsstring" where
  "decimal n = (if n < 10 then [digit_char n] else decimal (n div 10) @ [digit_char (n mod 10)])"
  by pat_completeness auto
termination
  by (relation "measure id") auto

declare decimal.simps [simp del]

definition zeros :: "nat \<Rightarrow> jsstring" where
  "zeros n = replicate n 0x30"

subsection \<open>Number to string\<close>

text \<open>
  \<open>Number.prototype.toString\<close> in radix 10. For a positive finite \<open>a\<close> it looks for
  the least number \<open>k\<close> of digits and a \<open>k\<close>-digit integer \<open>s\<close> such that
  \<open>s\<close> times a power of ten rounds to \<open>a\<close>; the candidates for a given \<open>k\<close> are the
  two integers around the scaled value, the nearer one first. Seventeen digits always
  suffice. \<open>layout\<close> then places the decimal point, or switches to exponent notation
  when the point would fall outside the range from -5 to 21.
\<close>

definition round_trips :: "rat \<Rightarrow> int \<Rightarrow> int \<Rightarrow> bool" where
  "round_trips a t s = (to_double (of_int s * ipow 10 t) = Finite a)"

definition low_digits :: "rat \<Rightarrow> nat \<Rightarrow> int" where
  "low_digits a k = \<lfloor>a / ipow 10 (floor_log 10 a + 1 - int k)\<rfloor>"

definition digits_at :: "rat \<Rightarrow> nat \<Rightarrow> int option" where
  "digits_at a k =
     (if round_trips a (floor_log 10 a + 1 - int k) (low_digits a k)
      then (if round_trips a (floor_log 10 a + 1 - int k) (low_digits a k + 1)
               \<and> round_half_even (a / ipow 10 (floor_log 10 a + 1 - int k)) = low_digits a k + 1
            then Some (low_digits a k + 1) else Some (low_digits a k))
      else if round_trips a (floor_log 10 a + 1 - int k) (low_digits a k + 1)
      then Some (low_digits a k + 1)
      else None)"

function shortest_k :: "rat \<Rightarrow> nat \<Rightarrow> nat" where
  "shortest_k a k =
     (if 17 \<le> k \<or> digits_at a k \<noteq> None then k else shortest_k a (Suc k))"
  by pat_completeness auto
termination
  by (relation "measure (\<lambda>(a, k). 17 - k)") auto

declare shortest_k.simps [simp del]

definition shortest_s :: "rat \<Rightarrow> nat" where
  "shortest_s a =
     (case digits_at a (shortest_k a 1) of
        Some s \<Rightarrow> nat s
      | None \<Rightarrow> nat (round_half_even (a / ipow 10 (floor_log 10 a + 1 - int (shortest_k a 1)))))"

definition sig_digits :: "rat \<Rightarrow> jsstring" where
  "sig_digits a =
     (if shortest_s a = 10 ^ shortest_k a 1 then js ''1'' else decimal (shortest_s a))"

definition sig_point :: "rat \<Rightarrow> int" where
  "sig_point a =
     (if shortest_s a = 10 ^ shortest_k a 1 then floor_log 10 a + 2 else floor_log 10 a + 1)"

definition exponent_text :: "int \<Rightarrow> jsstring" where
  "exponent_text e = (if e < 0 then js ''-'' else js ''+'') @ decimal (nat \<bar>e\<bar>)"

definition layout :: "jsstring \<Rightarrow> int \<Rightarrow> jsstring" where
  "layout ds n =
     (if - 5 \<le> n \<and> n \<le> 21 then
        (if int (length ds) \<le> n then ds @ zeros (nat n - length ds)
         else if 0 < n then take (nat n) ds @ js ''.'' @ drop (nat n) ds
         else js ''0.'' @ zeros (nat (- n)) @ ds)
      else if length ds = 1 then ds @ js ''e'' @ exponent_text (n - 1)
      else take 1 ds @ js ''.'' @ drop 1 ds @ js ''e'' @ exponent_text (n - 1))"

fun number_toString :: "jsnum \<Rightarrow> jsstring" where
  "number_toString NaN = js ''NaN''"
| "number_toString (Zero b) = js ''0''"
| "number_toString (Infinity b) = (if b then js ''-Infinity'' else js ''Infinity'')"
| "number_toString (Finite q) =
     (if q < 0 then js ''-'' else []) @ layout (sig_digits \<bar>q\<bar>) (sig_point \<bar>q\<bar>)"

declare number_toString.simps(4) [simp del]

subsection \<open>toPrecision\<close>

text \<open>
  \<open>x.toPrecision(p)\<close>: the \<open>p\<close>-digit integer nearest the scaled value, the larger
  one on a tie; exponent notation when the exponent is below -6 or at least \<open>p\<close>.
\<close>

definition prec_n :: "nat \<Rightarrow> rat \<Rightarrow> int" where
  "prec_n p a = round_half_up (a / ipow 10 (floor_log 10 a - int p + 1))"

definition prec_digits :: "nat \<Rightarrow> rat \<Rightarrow> jsstring" where
  "prec_digits p a =
     (if prec_n p a = 10 ^ p then decimal (10 ^ (p - 1)) else decimal (nat (prec_n p a)))"

definition prec_e :: "nat \<Rightarrow> rat \<Rightarrow> int" where
  "prec_e p a = (if prec_n p a = 10 ^ p then floor_log 10 a + 1 else floor_log 10 a)"

definition prec_layout :: "nat \<Rightarrow> jsstring \<Rightarrow> int \<Rightarrow> jsstring" where
  "prec_layout p m e =
     (if e < - 6 \<or> int p \<le> e then
        (if p \<noteq> 1 then take 1 m @ js ''.'' @ drop 1 m else m) @ js ''e'' @ exponent_text e
      else if e = int p - 1 then m
      else if 0 \<le> e then take (nat e + 1) m @ js ''.'' @ drop (nat e + 1) m
      else js ''0.'' @ zeros (nat (- (e + 1))) @ m)"

fun toPrecision :: "jsnum \<Rightarrow> nat \<Rightarrow> jsstring" where
  "toPrecision NaN p = number_toString NaN"
| "toPrecision (Infinity b) p = number_toString (Infinity b)"
| "toPrecision (Zero b) p = prec_layout p (zeros p) 0"
| "toPrecision (Finite q) p =
     (if q < 0 then js ''-'' else []) @ prec_layout p (prec_digits p \<bar>q\<bar>) (prec_e p \<bar>q\<bar>)"

declare toPrecision.simps(4) [simp del]

subsection \<open>parseFloat\<close>

text \<open>
  \<open>parseFloat\<close> skips leading white space, takes an optional sign, and reads the
  longest prefix that is \<open>Infinity\<close> or a decimal literal (digits, an optional
  fraction, an optional exponent that counts only when it has digits). Without such a
  prefix the result is not-a-number; a zero keeps the sign. The value is the double
  nearest the literal (for a literal of more than twenty significant digits a host may
  also round the literal first; the nearest double is taken here).
\<close>

definition is_digit :: "jschar \<Rightarrow> bool" where
  "is_digit c = (0x30 \<le> c \<and> c \<le> 0x39)"

definition digits_value :: "jsstring \<Rightarrow> nat" where
  "digits_value ds = foldl (\<lambda>v c. 10 * v + (unat c - 48)) 0 ds"

definition has_sign :: "jsstring \<Rightarrow> bool" where
  "has_sign s = (s \<noteq> [] \<and> (hd s = 0x2B \<or> hd s = 0x2D))"

definition unsigned_part :: "jsstring \<Rightarrow> jsstring" where
  "unsigned_part s = (if has_sign s then tl s else s)"

definition int_digits :: "jsstring \<Rightarrow> jsstring" where
  "int_digits u = takeWhile is_digit u"

definition after_int :: "jsstring \<Rightarrow> jsstring" where
  "after_int u = dropWhile is_digit u"

definition has_point :: "jsstring \<Rightarrow> bool" where
  "has_point u = (after_int u \<noteq> [] \<and> hd (after_int u) = 0x2E)"

definition frac_digits :: "jsstring \<Rightarrow> jsstring" where
  "frac_digits u = (if has_point u then takeWhile is_digit (tl (after_int u)) else [])"

definition after_mantissa :: "jsstring \<Rightarrow> jsstring" where
  "after_mantissa u =
     (if has_point u then dropWhile is_digit (tl (after_int u)) else after_int u)"

definition exponent_digits :: "jsstring \<Rightarrow> jsstring" where
  "exponent_digits r =
     (if r \<noteq> [] \<and> (hd r = 0x65 \<or> hd r = 0x45)
      then takeWhile is_digit (unsigned_part (tl r)) else [])"

definition exponent_value :: "jsstring \<Rightarrow> int" where
  "exponent_value r =
     (if exponent_digits r = [] then 0
      else if tl r \<noteq> [] \<and> hd (tl r) = 0x2D then - int (digits_value (exponent_digits r))
      else int (digits_value (exponent_digits r)))"

definition decimal_mv :: "jsstring \<Rightarrow> rat" where
  "decimal_mv u =
     of_nat (digits_value (int_digits u))
       + of_nat (digits_value (frac_digits u)) * ipow 10 (- int (length (frac_digits u)))"

definition literal_value :: "jsstring \<Rightarrow> rat" where
  "literal_value u = decimal_mv u * ipow 10 (exponent_value (after_mantissa u))"

definition parse_unsigned :: "bool \<Rightarrow> jsstring \<Rightarrow> jsnum" where
  "parse_unsigned neg u =
     (if prefix (js ''Infinity'') u then Infinity neg
      else if int_digits u = [] \<and> frac_digits u = [] then NaN
      else if literal_value u = 0 then Zero neg
      else to_double (if neg then - literal_value u else literal_value u))"

definition parseFloat :: "jsstring \<Rightarrow> jsnum" where
  "parseFloat s =
     parse_unsigned (dropWhile is_space s \<noteq> [] \<and> hd (dropWhile is_space s) = 0x2D)
       (unsigned_part (dropWhile is_space s))"


section \<open>Values, errors and completions\<close>

text \<open>
  The values that evaluating a string over the whitelisted characters can produce: a
  number, \<open>undefined\<close>, or a regular-expression object (carried with the text that
  \<open>String\<close> gives for it).
\<close>

datatype jsval = JNum jsnum | JUndefined | JRegExp jsstring

datatype jserror = SyntaxError | TypeError | SecurityError

type_synonym 'a completion = "jserror + 'a"

definition and_then :: "'a completion \<Rightarrow> ('a \<Rightarrow> 'b completion) \<Rightarrow> 'b completion" where
  "and_then m f = (case m of Inl e \<Rightarrow> Inl e | Inr v \<Rightarrow> f v)"

text \<open>\<open>try { body } catch (e) { handler }\<close>\<close>

definition try_catch :: "'a completion \<Rightarrow> (jserror \<Rightarrow> 'a completion) \<Rightarrow> 'a completion" where
  "try_catch body handler = (case body of Inl e \<Rightarrow> handler e | Inr v \<Rightarrow> Inr v)"

text \<open>\<open>String(v)\<close>, \<open>typeof v === 'number'\<close>, the conversion to a number that the
  arithmetic operators and \<open>Math.sqrt\<close> apply to an operand, and \<open>v === 0\<close>.\<close>

fun String_of :: "jsval \<Rightarrow> jsstring" where
  "String_of (JNum x) = number_toString x"
| "String_of JUndefined = js ''undefined''"
| "String_of (JRegExp t) = t"

fun is_number :: "jsval \<Rightarrow> bool" where
  "is_number (JNum x) = True"
| "is_number _ = False"

fun to_number :: "jsval \<Rightarrow> jsnum" where
  "to_number (JNum x) = x"
| "to_number _ = NaN"

fun is_zero :: "jsval \<Rightarrow> bool" where
  "is_zero (JNum (Zero b)) = True"
| "is_zero _ = False"


section \<open>Evaluating source text\<close>

text \<open>
  \<open>new Function(body)()\<close> hands a string to the host's parser and evaluator. The
  calculator treats it as given, so the operations below take the host as a parameter.
  For bodies \<open>return e\<close> where \<open>e\<close> is plain arithmetic the language definition fixes
  the outcome; \<open>ecma_run\<close> computes it and answers \<open>None\<close> for every other body
  (line terminators, comments, regular-expression literals, \<open>++\<close>, \<open>--\<close>, \<open>**\<close>,
  a lone dot, literals with a leading zero or with more than twenty digits, any
  character outside the arithmetic ones).
\<close>

datatype token = TNum jsnum | TPlus | TMinus | TStar | TSlash | TPercent | TLParen | TRParen

definition is_line_terminator :: "jschar \<Rightarrow> bool" where
  "is_line_terminator c = (c = 0x0A \<or> c = 0x0D \<or> c = 0x2028 \<or> c = 0x2029)"

definition starts_with :: "('a \<Rightarrow> bool) \<Rightarrow> 'a list \<Rightarrow> bool" where
  "starts_with P s = (s \<noteq> [] \<and> P (hd s))"

function lex :: "jsstring \<Rightarrow> token list option" where
  "lex [] = Some []"
| "lex (c # cs) =
     (if is_space c then (if is_line_terminator c then None else lex cs)
      else if is_digit c \<or> (c = 0x2E \<and> starts_with is_digit cs) then
        (if (c = 0x30 \<and> starts_with is_digit cs)
            \<or> 20 < length (int_digits (c # cs)) + length (frac_digits (c # cs))
         then None
         else map_option (Cons (TNum (to_double (decimal_mv (c # cs)))))
                (lex (after_mantissa (c # cs))))
      else if c = 0x2B then
        (if starts_with (\<lambda>d. d = 0x2B) cs then None else map_option (Cons TPlus) (lex cs))
      else if c = 0x2D then
        (if starts_with (\<lambda>d. d = 0x2D) cs then None else map_option (Cons TMinus) (lex cs))
      else if c = 0x2A then
        (if starts_with (\<lambda>d. d = 0x2A) cs then None else map_option (Cons TStar) (lex cs))
      else if c = 0x2F then
        (if starts_with (\<lambda>d. d = 0x2F \<or> d = 0x2A) cs then None
         else map_option (Cons TSlash) (lex cs))
      else if c = 0x25 then map_option (Cons TPercent) (lex cs)
      else if c = 0x28 then map_option (Cons TLParen) (lex cs)
      else if c = 0x29 then map_option (Cons TRParen) (lex cs)
      else None)"
  by pat_completeness auto
termination
proof (relation "measure length")
  fix c :: jschar and cs :: jsstring
  assume "is_digit c \<or> (c = 0x2E \<and> starts_with is_digit cs)"
  then have "length (after_mantissa (c # cs)) \<le> length cs"
  proof
    assume "is_digit c"
    then show ?thesis
      using length_dropWhile_le [of is_digit cs]
        length_dropWhile_le [of is_digit "tl (dropWhile is_digit cs)"]
      by (auto simp: after_mantissa_def after_int_def has_point_def)
  next
    assume "c = 0x2E \<and> starts_with is_digit cs"
    then show ?thesis
      using length_dropWhile_le [of is_digit cs]
      by (simp add: after_mantissa_def after_int_def has_point_def is_digit_def)
  qed
  then show "(after_mantissa (c # cs), c # cs) \<in> measure length" by simp
qed simp_all

declare lex.simps [simp del]

datatype binop = Add | Sub | Mul | Div | Rem

datatype ast = Lit jsnum | Unary bool ast | Binary binop ast ast | Call ast "ast option"

datatype 'a outcome = Parsed 'a | Rejected | Outside

datatype goal =
    Additive | AdditiveRest ast
  | Multiplicative | MultiplicativeRest ast
  | UnaryExpression
  | CallRest ast
  | Primary

definition closing :: "(ast \<times> token list) outcome \<Rightarrow> (ast \<times> token list) outcome" where
  "closing p =
     (case p of
        Parsed (a, r) \<Rightarrow>
          (if starts_with (\<lambda>t. t = TRParen) r then Parsed (a, tl r) else Rejected)
      | Rejected \<Rightarrow> Rejected
      | Outside \<Rightarrow> Outside)"

text \<open>
  Recursive descent along the productions AdditiveExpression, MultiplicativeExpression,
  UnaryExpression, CallExpression (a primary expression followed by argument lists) and
  PrimaryExpression (a literal or a parenthesised expression); the \<open>Rest\<close> goals
  continue a left-associative chain whose left operand is already parsed. The first
  argument bounds the depth of the descent; running out of it answers \<open>Outside\<close>.
\<close>

fun parse :: "nat \<Rightarrow> goal \<Rightarrow> token list \<Rightarrow> (ast \<times> token list) outcome" where
  "parse 0 g ts = Outside"
| "parse (Suc n) Additive ts =
     (case parse n Multiplicative ts of
        Parsed (a, r) \<Rightarrow> parse n (AdditiveRest a) r
      | Rejected \<Rightarrow> Rejected | Outside \<Rightarrow> Outside)"
| "parse (Suc n) (AdditiveRest a) ts =
     (if starts_with (\<lambda>t. t = TPlus \<or> t = TMinus) ts then
        (case parse n Multiplicative (tl ts) of
           Parsed (b, r) \<Rightarrow>
             parse n (AdditiveRest (Binary (if hd ts = TPlus then Add else Sub) a b)) r
         | Rejected \<Rightarrow> Rejected | Outside \<Rightarrow> Outside)
      else Parsed (a, ts))"
| "parse (Suc n) Multiplicative ts =
     (case parse n UnaryExpression ts of
        Parsed (a, r) \<Rightarrow> parse n (MultiplicativeRest a) r
      | Rejected \<Rightarrow> Rejected | Outside \<Rightarrow> Outside)"
| "parse (Suc n) (MultiplicativeRest a) ts =
     (if starts_with (\<lambda>t. t = TStar \<or> t = TSlash \<or> t = TPercent) ts then
        (case parse n UnaryExpression (tl ts) of
           Parsed (b, r) \<Rightarrow>
             parse n (MultiplicativeRest
               (Binary (if hd ts = TStar then Mul else if hd ts = TSlash then Div else Rem) a b)) r
         | Rejected \<Rightarrow> Rejected | Outside \<Rightarrow> Outside)
      else Parsed (a, ts))"
| "parse (Suc n) UnaryExpression ts =
     (if starts_with (\<lambda>t. t = TPlus \<or> t = TMinus) ts then
        (case parse n UnaryExpression (tl ts) of
           Parsed (a, r) \<Rightarrow> Parsed (Unary (hd ts = TMinus) a, r)
         | Rejected \<Rightarrow> Rejected | Outside \<Rightarrow> Outside)
      else
        (case parse n Primary ts of
           Parsed (a, r) \<Rightarrow> parse n (CallRest a) r
         | Rejected \<Rightarrow> Rejected | Outside \<Rightarrow> Outside))"
| "parse (Suc n) (CallRest a) ts =
     (if starts_with (\<lambda>t. t = TLParen) ts then
        (if starts_with (\<lambda>t. t = TRParen) (tl ts)
         then parse n (CallRest (Call a None)) (tl (tl ts))
         else (case closing (parse n Additive (tl ts)) of
                 Parsed (b, r) \<Rightarrow> parse n (CallRest (Call a (Some b))) r
               | Rejected \<Rightarrow> Rejected | Outside \<Rightarrow> Outside))
      else Parsed (a, ts))"
| "parse (Suc n) Primary ts =
     (if ts = [] then Rejected
      else if hd ts = TLParen then closing (parse n Additive (tl ts))
      else if hd ts = TSlash then Outside
      else (case hd ts of TNum x \<Rightarrow> Parsed (Lit x, tl ts) | _ \<Rightarrow> Rejected))"

fun fuel :: "token list \<Rightarrow> nat" where
  "fuel [] = Suc (Suc (Suc (Suc (Suc (Suc 0)))))"
| "fuel (t # ts) = Suc (Suc (Suc (Suc (fuel ts))))"

fun apply_binop :: "binop \<Rightarrow> jsnum \<Rightarrow> jsnum \<Rightarrow> jsnum" where
  "apply_binop Add x y = num_add x y"
| "apply_binop Sub x y = num_sub x y"
| "apply_binop Mul x y = num_mul x y"
| "apply_binop Div x y = num_div x y"
| "apply_binop Rem x y = num_rem x y"

text \<open>
  Every operand is a number, so the operators never throw; calling a number throws a
  TypeError, after the callee and the argument have been evaluated.
\<close>

fun eval :: "ast \<Rightarrow> jsnum completion" where
  "eval (Lit x) = Inr x"
| "eval (Unary neg a) = and_then (eval a) (\<lambda>x. Inr (if neg then num_neg x else x))"
| "eval (Binary op a b) =
     and_then (eval a) (\<lambda>x. and_then (eval b) (\<lambda>y. Inr (apply_binop op x y)))"
| "eval (Call f None) = and_then (eval f) (\<lambda>x. Inl TypeError)"
| "eval (Call f (Some a)) = and_then (eval f) (\<lambda>x. and_then (eval a) (\<lambda>y. Inl TypeError))"

definition run_expression :: "jsstring \<Rightarrow> jsval completion option" where
  "run_expression e =
     (case lex e of
        None \<Rightarrow> None
      | Some [] \<Rightarrow> Some (Inr JUndefined)
      | Some ts \<Rightarrow>
          (case parse (fuel ts) Additive ts of
             Outside \<Rightarrow> None
           | Rejected \<Rightarrow> Some (Inl SyntaxError)
           | Parsed (a, []) \<Rightarrow> Some (and_then (eval a) (\<lambda>x. Inr (JNum x)))
           | Parsed (a, t # r) \<Rightarrow> Some (Inl SyntaxError)))"

definition ecma_run :: "jsstring \<Rightarrow> jsval completion option" where
  "ecma_run body =
     (if prefix (js ''return '') body then run_expression (drop 7 body) else None)"

text \<open>
  The host: what \<open>new Function(body)()\<close> and \<open>Math.sqrt\<close> do. A host conforms when
  it agrees with \<open>ecma_run\<close> wherever that is defined.
\<close>

record host =
  run :: "jsstring \<Rightarrow> jsval completion"
  math_sqrt :: "jsnum \<Rightarrow> jsnum"

definition conforms :: "host \<Rightarrow> bool" where
  "conforms h = (\<forall>body r. ecma_run body = Some r \<longrightarrow> run h body = r)"

text \<open>A conforming host; outside the arithmetic fragment it rejects every body.\<close>

definition fragment_host :: host where
  "fragment_host =
     \<lparr> run = (\<lambda>body. case ecma_run body of Some r \<Rightarrow> r | None \<Rightarrow> Inl SyntaxError),
       math_sqrt = (\<lambda>x. NaN) \<rparr>"


section \<open>The calculator state\<close>

text \<open>
  The closure variables of the script: the expression buffer, and the text last
  written to the display element. The richer variant also reads and writes one key of
  \<open>localStorage\<close>; the store is a dictionary, and \<open>usable\<close> tells whether access
  to it succeeds (a browser may deny it, and then every access throws).
  Animations and the theme toggle do not touch any of these and are left out.
\<close>

record storage =
  items :: "jsstring \<rightharpoonup> jsstring"
  usable :: bool

record calc =
  buffer :: jsstring
  display :: jsstring
  localStorage :: storage

definition updateDisplay :: "calc \<Rightarrow> calc" where
  "updateDisplay s = s\<lparr>display := (if buffer s = [] then js ''0'' else buffer s)\<rparr>"

text \<open>\<open>append\<close>, \<open>clearAll\<close> and \<open>del\<close> are the same in the three variants.\<close>

definition append :: "calc \<Rightarrow> jsstring \<Rightarrow> calc" where
  "append s char =
     updateDisplay
       (if buffer s = js ''0'' \<and> js_ge char (js ''0'') \<and> js_le char (js ''9'')
        then s\<lparr>buffer := char\<rparr>
        else s\<lparr>buffer := buffer s @ char\<rparr>)"


text \<open>\<open>buffer.slice(0, -1)\<close>: all but the last code unit; the empty string stays empty.\<close>

definition del :: "calc \<Rightarrow> calc" where
  "del s = updateDisplay (s\<lparr>buffer := butlast (buffer s)\<rparr>)"


section \<open>Preprocessing and the character whitelist\<close>

text \<open>
  The two glyph patterns of \<open>preprocessExpression\<close>, as the script file holds them
  (read as UTF-8): the first is the six code units U+00EF U+00BF U+00BD U+00EF U+00BF
  U+00BD, the second the two code units U+00C3 U+00B7.
\<close>

definition times_glyph_pattern :: jsstring where
  "times_glyph_pattern = [0xEF, 0xBF, 0xBD, 0xEF, 0xBF, 0xBD]"

definition divide_glyph_pattern :: jsstring where
  "divide_glyph_pattern = [0xC3, 0xB7]"

definition preprocessExpression :: "jsstring \<Rightarrow> jsstring" where
  "preprocessExpression expr =
     (if expr = [] then []
      else replace_all (js ''%'') (js ''/100'')
             (replace_all (js ''^'') (js ''**'')
               (replace_all divide_glyph_pattern (js ''/'')
                 (replace_all times_glyph_pattern (js ''*'') expr))))"

text \<open>The class \<open>[0-9+\-*/().\s]\<close> of the richer variant.\<close>

definition allowed_char :: "jschar \<Rightarrow> bool" where
  "allowed_char c =
     ((0x30 \<le> c \<and> c \<le> 0x39) \<or> c = 0x2B \<or> c = 0x2D \<or> c = 0x2A \<or> c = 0x2F
      \<or> c = 0x28 \<or> c = 0x29 \<or> c = 0x2E \<or> is_space c)"

definition sanitizeExpression :: "jsstring \<Rightarrow> bool" where
  "sanitizeExpression expr = class_plus_to_end allowed_char expr"

text \<open>The class \<open>[0-9+\-*/().%\s]\<close> of the two basic variants.\<close>

definition allowed_char_basic :: "jschar \<Rightarrow> bool" where
  "allowed_char_basic c =
     ((0x30 \<le> c \<and> c \<le> 0x39) \<or> c = 0x2B \<or> c = 0x2D \<or> c = 0x2A \<or> c = 0x2F
      \<or> c = 0x28 \<or> c = 0x29 \<or> c = 0x2E \<or> c = 0x25 \<or> is_space c)"

definition sanitizeExpression_basic :: "jsstring \<Rightarrow> bool" where
  "sanitizeExpression_basic expr = class_plus_to_end allowed_char_basic expr"


section \<open>Evaluation\<close>

text \<open>
  The formatting that \<open>evaluateExpression\<close> and \<open>applyFunction\<close> both apply to a
  result: a number that is not an integer goes through \<open>toPrecision(12)\<close>,
  \<open>parseFloat\<close> and \<open>toString\<close>; everything else through \<open>String\<close>.
\<close>

definition format_result :: "jsval \<Rightarrow> jsstring" where
  "format_result result =
     (if is_number result \<and> \<not> isInteger (to_number result)
      then number_toString (parseFloat (toPrecision (to_number result) 12))
      else String_of result)"

text \<open>
  \<open>evaluateExpression\<close> of the two basic variants: no preprocessing, and the percent
  sign is on the whitelist.
\<close>

definition evaluateExpression_basic :: "host \<Rightarrow> calc \<Rightarrow> calc completion" where
  "evaluateExpression_basic h s =
     (if trim (buffer s) = [] then Inr s
      else if \<not> sanitizeExpression_basic (trim (buffer s))
      then Inr (updateDisplay (s\<lparr>buffer := js ''Error''\<rparr>))
      else and_then
             (try_catch
                (and_then (run h (js ''return '' @ trim (buffer s)))
                   (\<lambda>result. Inr (s\<lparr>buffer := format_result result\<rparr>)))
                (\<lambda>e. Inr (s\<lparr>buffer := js ''Error''\<rparr>)))
             (\<lambda>s'. Inr (updateDisplay s')))"

text \<open>\<open>evaluateExpression\<close> of the richer variant.\<close>

definition evaluateExpression :: "host \<Rightarrow> calc \<Rightarrow> calc completion" where
  "evaluateExpression h s =
     (if trim (buffer s) = [] then Inr s
      else if \<not> sanitizeExpression (preprocessExpression (trim (buffer s)))
      then Inr (updateDisplay (s\<lparr>buffer := js ''Error''\<rparr>))
      else and_then
             (try_catch
                (and_then (run h (js ''return '' @ preprocessExpression (trim (buffer s))))
                   (\<lambda>result. Inr (s\<lparr>buffer := format_result result\<rparr>)))
                (\<lambda>e. Inr (s\<lparr>buffer := js ''Error''\<rparr>)))
             (\<lambda>s'. Inr (updateDisplay s')))"


section \<open>Functions on the current value\<close>

text \<open>
  The \<open>switch\<close> of \<open>applyFunction\<close>; \<open>None\<close> is the \<open>default: return\<close>, which
  leaves the function without touching the buffer or the display.
\<close>

definition apply_switch :: "host \<Rightarrow> jsstring \<Rightarrow> jsval \<Rightarrow> jsnum option" where
  "apply_switch h fn v =
     (if fn = js ''sqrt'' then Some (math_sqrt h (to_number v))
      else if fn = js ''square'' then Some (num_mul (to_number v) (to_number v))
      else if fn = js ''reciprocal''
      then Some (if is_zero v then NaN else num_div (Finite 1) (to_number v))
      else if fn = js ''negate'' then Some (num_neg (to_number v))
      else None)"

definition applyFunction :: "host \<Rightarrow> jsstring \<Rightarrow> calc \<Rightarrow> calc completion" where
  "applyFunction h fn s =
     (if trim (buffer s) = [] then Inr s
      else if \<not> sanitizeExpression (preprocessExpression (trim (buffer s)))
      then Inr (updateDisplay (s\<lparr>buffer := js ''Error''\<rparr>))
      else and_then
             (try_catch
                (and_then (run h (js ''return '' @ preprocessExpression (trim (buffer s))))
                   (\<lambda>v. Inr (map_option (\<lambda>out. s\<lparr>buffer := format_result (JNum out)\<rparr>)
                                 (apply_switch h fn v))))
                (\<lambda>e. Inr (Some (s\<lparr>buffer := js ''Error''\<rparr>))))
             (\<lambda>r. case r of None \<Rightarrow> Inr s | Some s' \<Rightarrow> Inr (updateDisplay s')))"


section \<open>The memory register\<close>

definition MEMORY_KEY :: jsstring where
  "MEMORY_KEY = js ''calculator-memory-v1''"

definition getItem :: "storage \<Rightarrow> jsstring \<Rightarrow> jsstring option completion" where
  "getItem st k = (if usable st then Inr (items st k) else Inl SecurityError)"

definition setItem :: "storage \<Rightarrow> jsstring \<Rightarrow> jsstring \<Rightarrow> storage completion" where
  "setItem st k v =
     (if usable st then Inr (st\<lparr>items := (items st)(k \<mapsto> v)\<rparr>) else Inl SecurityError)"


definition memoryGet :: "calc \<Rightarrow> jsnum completion" where
  "memoryGet s =
     try_catch
       (and_then (getItem (localStorage s) MEMORY_KEY)
          (\<lambda>raw. case raw of
                    None \<Rightarrow> Inr (Zero False)
                  | Some r \<Rightarrow> Inr (if isFinite (parseFloat r) then parseFloat r else Zero False)))
       (\<lambda>e. Inr (Zero False))"

definition memorySet :: "calc \<Rightarrow> jsnum \<Rightarrow> calc completion" where
  "memorySet s v =
     try_catch
       (and_then (setItem (localStorage s) MEMORY_KEY (number_toString v))
          (\<lambda>st. Inr (s\<lparr>localStorage := st\<rparr>)))
       (\<lambda>e. Inr s)"


text \<open>\<open>evaluateForMemory\<close> answers a number, or \<open>null\<close> (here \<open>None\<close>).\<close>

definition evaluateForMemory :: "host \<Rightarrow> calc \<Rightarrow> jsnum option completion" where
  "evaluateForMemory h s =
     (if trim (buffer s) = [] then Inr None
      else if \<not> sanitizeExpression (preprocessExpression (trim (buffer s))) then Inr None
      else try_catch
             (and_then (run h (js ''return '' @ preprocessExpression (trim (buffer s))))
                (\<lambda>v. Inr (Some (if is_number v then to_number v
                                  else parseFloat (String_of v)))))
             (\<lambda>e. Inr None))"

definition memoryAdd :: "host \<Rightarrow> calc \<Rightarrow> calc completion" where
  "memoryAdd h s =
     and_then (evaluateForMemory h s)
       (\<lambda>val. case val of
                 None \<Rightarrow> Inr s
               | Some v \<Rightarrow> and_then (memoryGet s) (\<lambda>m. memorySet s (num_add m v)))"

definition memorySub :: "host \<Rightarrow> calc \<Rightarrow> calc completion" where
  "memorySub h s =
     and_then (evaluateForMemory h s)
       (\<lambda>val. case val of
                 None \<Rightarrow> Inr s
               | Some v \<Rightarrow> and_then (memoryGet s) (\<lambda>m. memorySet s (num_sub m v)))"



section \<open>The operations a button or key can trigger\<close>



text \<open>
  A state holding a given buffer, already shown on the display, with an empty, working
  store: what the calculator is in after the buffer has been typed into a fresh page.
\<close>

definition with_buffer :: "jsstring \<Rightarrow> calc" where
  "with_buffer b =
     \<lparr> buffer = b, display = (if b = [] then js ''0'' else b),
       localStorage = \<lparr> items = Map.empty, usable = True \<rparr> \<rparr>"


section \<open>Preprocessing as the specification words it\<close>

text \<open>
  The rewriting that the specification describes, character by character: the
  multiplication sign U+00D7 becomes \<open>*\<close>, the division sign U+00F7 becomes \<open>/\<close>, a
  caret becomes \<open>**\<close> and a percent sign becomes \<open>/100\<close>.
\<close>

definition spec_rewrite :: "jschar \<Rightarrow> jsstring" where
  "spec_rewrite c =
     (if c = 0xD7 then js ''*'' else if c = 0xF7 then js ''/''
      else if c = 0x5E then js ''**'' else if c = 0x25 then js ''/100'' else [c])"

definition spec_preprocess :: "jsstring \<Rightarrow> jsstring" where
  "spec_preprocess expr = concat (map spec_rewrite expr)"


section \<open>Facts about strings\<close>

lemma js_lt_single_digit0: "js_lt [c] (js ''0'') = (c < 0x30)"
  by (simp add: js_def)

lemma js_lt_digit9_single: "js_lt (js ''9'') [c] = (0x39 < c)"
  by (auto simp add: js_def)

lemma unat_numeral_word: "unat (c::jschar) = numeral n \<Longrightarrow> c = numeral n"
  by (metis of_nat_numeral of_nat_unat ucast_id)

lemma digit_codes: "set (js ''0123456789'') = {c. 0x30 \<le> c \<and> c \<le> 0x39}"
proof (intro equalityI subsetI)
  fix c assume "c \<in> set (js ''0123456789'')"
  then show "c \<in> {c. 0x30 \<le> c \<and> c \<le> 0x39}" by (auto simp: js_def)
next
  fix c :: jschar assume "c \<in> {c. 0x30 \<le> c \<and> c \<le> 0x39}"
  then have "48 \<le> unat c" "unat c \<le> 57" by (simp_all add: word_le_nat_alt)
  then have "unat c \<in> {48, 49, 50, 51, 52, 53, 54, 55, 56, 57}" by simp arith
  then have "c \<in> {48, 49, 50, 51, 52, 53, 54, 55, 56, 57}"
    by (auto dest: unat_numeral_word)
  then show "c \<in> set (js ''0123456789'')" by (auto simp: js_def)
qed

lemma class_plus_to_end_iff: "class_plus_to_end C e \<longleftrightarrow> e \<noteq> [] \<and> list_all C e"
  by (induction e) auto

lemma trim_all_space: "list_all is_space e \<Longrightarrow> trim e = []"
proof -
  assume "list_all is_space e"
  then have "dropWhile is_space e = []" by (simp add: list_all_iff)
  then show ?thesis unfolding trim_def by (simp only: rev.simps dropWhile.simps)
qed


section \<open>Appending a token\<close>

text \<open>
  For a token of any length the leading-zero test is the string comparison of the
  source.
\<close>

lemma append_buffer:
  "buffer (append s tok) =
     (if buffer s = js ''0'' \<and> js_ge tok (js ''0'') \<and> js_le tok (js ''9'')
      then tok else buffer s @ tok)"
  by (simp add: append_def updateDisplay_def)

text \<open>
  C3. For every one-character token, \<open>append\<close> concatenates the token onto the buffer,
  except when the buffer is exactly "0" and the token is one of the digits 0 to 9; then
  the token replaces the buffer. Appending "5" to "0" gives "5", and to "10" gives "105".
\<close>

theorem append_token:
  "buffer (append s [c]) =
     (if buffer s = js ''0'' \<and> c \<in> set (js ''0123456789'') then [c] else buffer s @ [c])
   \<and> buffer (append (s\<lparr>buffer := js ''0''\<rparr>) (js ''5'')) = js ''5''
   \<and> buffer (append (s\<lparr>buffer := js ''10''\<rparr>) (js ''5'')) = js ''105''"
proof -
  have "buffer (append s [c]) =
     (if buffer s = js ''0'' \<and> c \<in> set (js ''0123456789'') then [c] else buffer s @ [c])"
    unfolding append_buffer digit_codes js_ge_def js_le_def
      js_lt_single_digit0 js_lt_digit9_single
    by (auto simp: not_less)
  moreover have "buffer (append (s\<lparr>buffer := js ''0''\<rparr>) (js ''5'')) = js ''5''"
    by (simp add: append_buffer js_ge_def js_le_def js_def)
  moreover have "buffer (append (s\<lparr>buffer := js ''10''\<rparr>) (js ''5'')) = js ''105''"
    by (simp add: append_buffer js_ge_def js_le_def js_def)
  ultimately show ?thesis by blast
qed


section \<open>The whitelist\<close>

lemma allowed_char_iff:
  "allowed_char c \<longleftrightarrow> c \<in> set (js ''0123456789+-*/().'') \<or> is_space c"
proof -
  have "c \<in> set (js ''0123456789+-*/().'')
      \<longleftrightarrow> c \<in> set (js ''0123456789'') \<or> c \<in> set (js ''+-*/().'')"
    by (auto simp: js_def)
  also have "\<dots> \<longleftrightarrow> (0x30 \<le> c \<and> c \<le> 0x39) \<or> c \<in> set (js ''+-*/().'')"
    by (simp only: digit_codes mem_Collect_eq)
  finally show ?thesis
    by (auto simp: allowed_char_def js_def)
qed

lemma allowed_char_basic_iff:
  "allowed_char_basic c \<longleftrightarrow> c \<in> set (js ''0123456789+-*/().%'') \<or> is_space c"
proof -
  have "c \<in> set (js ''0123456789+-*/().%'')
      \<longleftrightarrow> c \<in> set (js ''0123456789'') \<or> c \<in> set (js ''+-*/().%'')"
    by (auto simp: js_def)
  also have "\<dots> \<longleftrightarrow> (0x30 \<le> c \<and> c \<le> 0x39) \<or> c \<in> set (js ''+-*/().%'')"
    by (simp only: digit_codes mem_Collect_eq)
  finally show ?thesis
    by (auto simp: allowed_char_basic_def js_def)
qed

lemma space_allowed: "is_space c \<Longrightarrow> allowed_char c \<and> allowed_char_basic c"
  by (simp add: allowed_char_def allowed_char_basic_def)

text \<open>
  C4. \<open>sanitizeExpression\<close> holds exactly of the non-empty strings all of whose
  characters are digits, one of \<open>+ - * / ( ) .\<close>, or white space; the basic variants
  allow \<open>%\<close> as well. The empty string is rejected. A non-empty string of white space
  passes both tests, and is stopped earlier: its trimmed form is empty, and evaluation
  then returns without touching the state.
\<close>

theorem sanitize_whitelist:
  "(sanitizeExpression e \<longleftrightarrow>
      e \<noteq> [] \<and> (\<forall>c\<in>set e. c \<in> set (js ''0123456789+-*/().'') \<or> is_space c))
   \<and> (sanitizeExpression_basic e \<longleftrightarrow>
      e \<noteq> [] \<and> (\<forall>c\<in>set e. c \<in> set (js ''0123456789+-*/().%'') \<or> is_space c))
   \<and> \<not> sanitizeExpression [] \<and> \<not> sanitizeExpression_basic []
   \<and> (w \<noteq> [] \<and> (\<forall>c\<in>set w. is_space c) \<longrightarrow>
        sanitizeExpression w \<and> sanitizeExpression_basic w \<and> trim w = []
        \<and> evaluateExpression h (s\<lparr>buffer := w\<rparr>) = Inr (s\<lparr>buffer := w\<rparr>)
        \<and> evaluateExpression_basic h (s\<lparr>buffer := w\<rparr>) = Inr (s\<lparr>buffer := w\<rparr>))"
proof (intro conjI impI)
  show "sanitizeExpression e \<longleftrightarrow>
      e \<noteq> [] \<and> (\<forall>c\<in>set e. c \<in> set (js ''0123456789+-*/().'') \<or> is_space c)"
    unfolding sanitizeExpression_def class_plus_to_end_iff list_all_iff allowed_char_iff ..
  show "sanitizeExpression_basic e \<longleftrightarrow>
      e \<noteq> [] \<and> (\<forall>c\<in>set e. c \<in> set (js ''0123456789+-*/().%'') \<or> is_space c)"
    unfolding sanitizeExpression_basic_def class_plus_to_end_iff list_all_iff
      allowed_char_basic_iff ..
  show "\<not> sanitizeExpression []" by (simp add: sanitizeExpression_def)
  show "\<not> sanitizeExpression_basic []" by (simp add: sanitizeExpression_basic_def)
next
  assume w: "w \<noteq> [] \<and> (\<forall>c\<in>set w. is_space c)"
  then show "sanitizeExpression w"
    by (simp add: sanitizeExpression_def class_plus_to_end_iff list_all_iff space_allowed)
  from w show "sanitizeExpression_basic w"
    by (simp add: sanitizeExpression_basic_def class_plus_to_end_iff list_all_iff
        space_allowed)
  from w show t: "trim w = []" by (simp add: trim_all_space list_all_iff)
  from t show "evaluateExpression h (s\<lparr>buffer := w\<rparr>) = Inr (s\<lparr>buffer := w\<rparr>)"
    by (simp add: evaluateExpression_def)
  from t show "evaluateExpression_basic h (s\<lparr>buffer := w\<rparr>) = Inr (s\<lparr>buffer := w\<rparr>)"
    by (simp add: evaluateExpression_basic_def)
qed

theorem sanitize_whitelist_witness:
  "sanitizeExpression (js ''(1+2)*3'') \<and> sanitizeExpression_basic (js ''50%'')
   \<and> \<not> sanitizeExpression (js ''50%'') \<and> \<not> sanitizeExpression (js ''2+a'')
   \<and> sanitizeExpression (js '' '') \<and> trim (js '' '') = []"
proof -
  have a: "js ''(1+2)*3'' \<noteq> []
      \<and> (\<forall>c\<in>set (js ''(1+2)*3''). c \<in> set (js ''0123456789+-*/().'') \<or> is_space c)"
    by (simp add: js_def)
  have b: "js ''50%'' \<noteq> []
      \<and> (\<forall>c\<in>set (js ''50%''). c \<in> set (js ''0123456789+-*/().%'') \<or> is_space c)"
    by (simp add: js_def)
  have c: "\<not> (\<forall>c\<in>set (js ''50%''). c \<in> set (js ''0123456789+-*/().'') \<or> is_space c)"
    by (simp add: js_def is_space_def)
  have d: "\<not> (\<forall>c\<in>set (js ''2+a''). c \<in> set (js ''0123456789+-*/().'') \<or> is_space c)"
    by (simp add: js_def is_space_def)
  have e: "js '' '' \<noteq> [] \<and> (\<forall>c\<in>set (js '' ''). is_space c)"
    by (simp add: js_def is_space_def)
  show ?thesis
    using a c d sanitize_whitelist [of "js ''(1+2)*3''" "js '' ''"]
      b sanitize_whitelist [of "js ''50%''" "js '' ''"]
      sanitize_whitelist [of "js ''2+a''" "js '' ''"] e
    by blast
qed


section \<open>Evaluation of an empty buffer\<close>

text \<open>
  C5. When the buffer is empty or holds white space only, \<open>evaluateExpression\<close> returns
  at once: buffer, display and storage are what they were. This holds in the basic
  variants and in the richer one.
\<close>

theorem evaluate_blank_is_noop:
  "list_all is_space (buffer s) \<Longrightarrow>
     evaluateExpression h s = Inr s \<and> evaluateExpression_basic h s = Inr s"
  by (simp add: evaluateExpression_def evaluateExpression_basic_def trim_all_space)

theorem evaluate_blank_is_noop_witness:
  "evaluateExpression fragment_host
     \<lparr>buffer = js ''  '', display = js ''7'', localStorage = \<lparr>items = Map.empty, usable = True\<rparr>\<rparr>
   = Inr \<lparr>buffer = js ''  '', display = js ''7'',
          localStorage = \<lparr>items = Map.empty, usable = True\<rparr>\<rparr>
   \<and> evaluateExpression_basic fragment_host
     \<lparr>buffer = [], display = js ''0'', localStorage = \<lparr>items = Map.empty, usable = True\<rparr>\<rparr>
   = Inr \<lparr>buffer = [], display = js ''0'',
          localStorage = \<lparr>items = Map.empty, usable = True\<rparr>\<rparr>"
proof -
  have a: "list_all is_space (buffer \<lparr>buffer = js ''  '', display = js ''7'',
      localStorage = \<lparr>items = Map.empty, usable = True\<rparr>\<rparr>)"
    by (simp add: js_def is_space_def)
  have b: "list_all is_space (buffer \<lparr>buffer = [], display = js ''0'',
      localStorage = \<lparr>items = Map.empty, usable = True\<rparr>\<rparr>)"
    by simp
  show ?thesis
    using evaluate_blank_is_noop [OF a, of fragment_host]
      evaluate_blank_is_noop [OF b, of fragment_host]
    by simp
qed


section \<open>The error sentinel\<close>

lemma evaluate_basic_rejected:
  "trim (buffer s) \<noteq> [] \<Longrightarrow> \<not> sanitizeExpression_basic (trim (buffer s)) \<Longrightarrow>
     evaluateExpression_basic h s = Inr (updateDisplay (s\<lparr>buffer := js ''Error''\<rparr>))"
  by (simp add: evaluateExpression_basic_def)

lemma evaluate_basic_thrown:
  "trim (buffer s) \<noteq> [] \<Longrightarrow> run h (js ''return '' @ trim (buffer s)) = Inl e \<Longrightarrow>
     evaluateExpression_basic h s = Inr (updateDisplay (s\<lparr>buffer := js ''Error''\<rparr>))"
  by (simp add: evaluateExpression_basic_def and_then_def try_catch_def)

lemma evaluate_rejected:
  "trim (buffer s) \<noteq> [] \<Longrightarrow>
   \<not> sanitizeExpression (preprocessExpression (trim (buffer s))) \<Longrightarrow>
     evaluateExpression h s = Inr (updateDisplay (s\<lparr>buffer := js ''Error''\<rparr>))"
  by (simp add: evaluateExpression_def)

lemma evaluate_thrown:
  "trim (buffer s) \<noteq> [] \<Longrightarrow>
   run h (js ''return '' @ preprocessExpression (trim (buffer s))) = Inl e \<Longrightarrow>
     evaluateExpression h s = Inr (updateDisplay (s\<lparr>buffer := js ''Error''\<rparr>))"
  by (simp add: evaluateExpression_def and_then_def try_catch_def)

lemma evaluate_returned:
  "trim (buffer s) \<noteq> [] \<Longrightarrow>
   sanitizeExpression (preprocessExpression (trim (buffer s))) \<Longrightarrow>
   run h (js ''return '' @ preprocessExpression (trim (buffer s))) = Inr v \<Longrightarrow>
     evaluateExpression h s = Inr (updateDisplay (s\<lparr>buffer := format_result v\<rparr>))"
  by (simp add: evaluateExpression_def and_then_def try_catch_def)


lemma updateDisplay_buffer: "buffer (updateDisplay s) = buffer s"
  by (simp add: updateDisplay_def)

text \<open>The same facts for a state that holds a given buffer.\<close>

lemma buffer_with_buffer: "buffer (with_buffer b) = b"
  by (simp add: with_buffer_def)

lemma shown: "b \<noteq> [] \<Longrightarrow> updateDisplay (with_buffer b'\<lparr>buffer := b\<rparr>) = with_buffer b"
  by (simp add: updateDisplay_def with_buffer_def)

lemma Error_shown:
  "updateDisplay (with_buffer b\<lparr>buffer := js ''Error''\<rparr>) = with_buffer (js ''Error'')"
  by (simp add: shown js_def)

lemma evaluate_with_buffer_rejected:
  "trim b \<noteq> [] \<Longrightarrow> \<not> sanitizeExpression (preprocessExpression (trim b)) \<Longrightarrow>
     evaluateExpression h (with_buffer b) = Inr (with_buffer (js ''Error''))"
  by (simp add: evaluate_rejected buffer_with_buffer Error_shown)

lemma evaluate_with_buffer_returned:
  "trim b \<noteq> [] \<Longrightarrow> sanitizeExpression (preprocessExpression (trim b)) \<Longrightarrow>
   run h (js ''return '' @ preprocessExpression (trim b)) = Inr v \<Longrightarrow>
   format_result v \<noteq> [] \<Longrightarrow>
     evaluateExpression h (with_buffer b) = Inr (with_buffer (format_result v))"
  by (simp add: evaluate_returned buffer_with_buffer shown)


lemma evaluate_basic_with_buffer_thrown:
  "trim b \<noteq> [] \<Longrightarrow> run h (js ''return '' @ trim b) = Inl e \<Longrightarrow>
     evaluateExpression_basic h (with_buffer b) = Inr (with_buffer (js ''Error''))"
  by (simp add: evaluate_basic_thrown buffer_with_buffer Error_shown)


section \<open>Evaluating the host model on concrete inputs\<close>

lemma floor_rat_numeral [simp]:
  "\<lfloor>numeral a / numeral b :: rat\<rfloor> = numeral a div numeral b"
  by (metis floor_divide_of_int_eq of_int_numeral)

lemma floor_one_over_numeral [simp]: "\<lfloor>1 / numeral b :: rat\<rfloor> = 1 div numeral b"
  by (metis floor_divide_of_int_eq of_int_1 of_int_numeral)

lemmas dbl_eval = to_double_def nearest_def quantum_def floor_log_def ilog_up.simps
  ilog_down.simps round_half_even_def ipow_def

lemmas str_eval = js_def is_space_def is_digit_def starts_with_def is_line_terminator_def

lemmas parse_float_eval = parseFloat_def parse_unsigned_def unsigned_part_def has_sign_def
  int_digits_def after_int_def has_point_def frac_digits_def after_mantissa_def
  exponent_digits_def exponent_value_def literal_value_def decimal_mv_def digits_value_def

lemmas to_string_eval = number_toString.simps(4) round_trips_def low_digits_def digits_at_def shortest_k.simps
  shortest_s_def sig_digits_def sig_point_def exponent_text_def layout_def decimal.simps
  digit_char_def zeros_def

lemmas to_precision_eval = toPrecision.simps(4) prec_n_def prec_digits_def prec_e_def prec_layout_def
  round_half_up_def exponent_text_def decimal.simps digit_char_def zeros_def

lemmas lex_eval = lex.simps str_eval parse_float_eval dbl_eval

lemmas run_eval = run_expression_def closing_def and_then_def starts_with_def

lemma ecma_run_return: "ecma_run (js ''return '' @ e) = run_expression e"
  by (simp add: ecma_run_def js_def)

lemma fragment_host_conforms: "conforms fragment_host"
  by (simp add: conforms_def fragment_host_def)

lemma conforms_run:
  "conforms h \<Longrightarrow> run_expression e = Some r \<Longrightarrow> run h (js ''return '' @ e) = r"
  by (simp add: conforms_def ecma_run_return)

lemma fragment_host_run:
  "run_expression e = Some r \<Longrightarrow> run fragment_host (js ''return '' @ e) = r"
  by (rule conforms_run [OF fragment_host_conforms])

text \<open>Unbalanced parentheses are a syntax error.\<close>

lemma lex_unbalanced: "lex (js ''(()'') = Some [TLParen, TLParen, TRParen]"
  by (simp add: lex_eval)

lemma run_unbalanced: "run_expression (js ''(()'') = Some (Inl SyntaxError)"
  by (simp add: lex_unbalanced run_eval)



lemma lex_zero: "lex (js ''0'') = Some [TNum (Zero False)]"
  by (simp add: lex_eval)

lemma run_zero: "run_expression (js ''0'') = Some (Inr (JNum (Zero False)))"
  by (simp add: lex_zero run_eval)





lemma lex_fifty_by_hundred:
  "lex (js ''50/100'') = Some [TNum (Finite 50), TSlash, TNum (Finite 100)]"
  by (simp add: lex_eval)

lemma run_fifty_by_hundred:
  "run_expression (js ''50/100'') = Some (Inr (JNum (Finite (1 / 2))))"
  by (simp add: lex_fifty_by_hundred run_eval dbl_eval)

lemma lex_fifty_percent: "lex (js ''50%'') = Some [TNum (Finite 50), TPercent]"
  by (simp add: lex_eval)

lemma run_fifty_percent: "run_expression (js ''50%'') = Some (Inl SyntaxError)"
  by (simp add: lex_fifty_percent run_eval)




lemma parseFloat_NaN: "parseFloat (js ''NaN'') = NaN"
  by (simp add: parse_float_eval str_eval)

lemma format_NaN: "format_result (JNum NaN) = js ''NaN''"
  by (simp add: format_result_def parseFloat_NaN)






lemma toPrecision_half: "toPrecision (Finite (1 / 2)) 12 = js ''0.500000000000''"
  by (simp add: to_precision_eval dbl_eval js_def)

lemma parseFloat_half: "parseFloat (js ''0.500000000000'') = Finite (1 / 2)"
  by (simp add: parse_float_eval str_eval dbl_eval)

lemma toString_half: "number_toString (Finite (1 / 2)) = js ''0.5''"
  by (simp add: to_string_eval dbl_eval js_def)

lemma format_half: "format_result (JNum (Finite (1 / 2))) = js ''0.5''"
  by (simp add: format_result_def toPrecision_half parseFloat_half toString_half)

text \<open>Trimming, preprocessing and the whitelist on the buffers used below.\<close>

lemmas buffer_eval = trim_def preprocessExpression_def sanitizeExpression_def
  sanitizeExpression_basic_def allowed_char_def allowed_char_basic_def
  times_glyph_pattern_def divide_glyph_pattern_def js_def is_space_def





section \<open>Errors never leave the evaluator\<close>

text \<open>
  C1. Take a buffer whose trimmed content is not empty. If the whitelist rejects it, or if
  running the text throws, \<open>evaluateExpression\<close> completes normally (no exception
  leaves it) and the buffer is exactly "Error"; the resulting state is the same for both
  kinds of error. This holds in the basic variants and in the richer one.
\<close>

theorem evaluate_error_sentinel:
  "trim (buffer s) \<noteq> [] \<Longrightarrow>
     (\<not> sanitizeExpression_basic (trim (buffer s))
        \<or> (\<exists>e. run h (js ''return '' @ trim (buffer s)) = Inl e)
      \<longrightarrow> evaluateExpression_basic h s = Inr (updateDisplay (s\<lparr>buffer := js ''Error''\<rparr>)))
   \<and> (\<not> sanitizeExpression (preprocessExpression (trim (buffer s)))
        \<or> (\<exists>e. run h (js ''return '' @ preprocessExpression (trim (buffer s))) = Inl e)
      \<longrightarrow> evaluateExpression h s = Inr (updateDisplay (s\<lparr>buffer := js ''Error''\<rparr>)))
   \<and> buffer (updateDisplay (s\<lparr>buffer := js ''Error''\<rparr>)) = js ''Error''"
  by (auto simp: evaluate_basic_rejected evaluate_basic_thrown evaluate_rejected
      evaluate_thrown updateDisplay_buffer)

lemma trim_letter: "trim (js ''2+a'') = js ''2+a''"
  by (simp add: buffer_eval)

lemma preprocess_letter: "preprocessExpression (js ''2+a'') = js ''2+a''"
  by (simp add: buffer_eval)

lemma sanitize_letter:
  "\<not> sanitizeExpression (js ''2+a'')" "\<not> sanitizeExpression_basic (js ''2+a'')"
  by (simp_all add: buffer_eval)

lemma trim_unbalanced: "trim (js ''(()'') = js ''(()''"
  by (simp add: buffer_eval)

lemma preprocess_unbalanced: "preprocessExpression (js ''(()'') = js ''(()''"
  by (simp add: buffer_eval)

lemma sanitize_unbalanced:
  "sanitizeExpression (js ''(()'')" "sanitizeExpression_basic (js ''(()'')"
  by (simp_all add: buffer_eval)

lemma js_nonempty: "js ''2+a'' \<noteq> []" "js ''(()'' \<noteq> []" "js ''Error'' \<noteq> []"
  by (simp_all add: js_def)

theorem evaluate_error_sentinel_witness:
  "evaluateExpression_basic fragment_host (with_buffer (js ''2+a''))
     = Inr (with_buffer (js ''Error''))
   \<and> evaluateExpression fragment_host (with_buffer (js ''2+a''))
     = Inr (with_buffer (js ''Error''))
   \<and> evaluateExpression_basic fragment_host (with_buffer (js ''(()''))
     = Inr (with_buffer (js ''Error''))
   \<and> evaluateExpression fragment_host (with_buffer (js ''(()''))
     = Inr (with_buffer (js ''Error''))"
proof -
  have a: "trim (buffer (with_buffer (js ''2+a''))) \<noteq> []"
    by (simp add: buffer_with_buffer trim_letter js_nonempty)
  have a1: "\<not> sanitizeExpression_basic (trim (buffer (with_buffer (js ''2+a''))))"
    by (simp add: buffer_with_buffer trim_letter sanitize_letter)
  have a2: "\<not> sanitizeExpression
      (preprocessExpression (trim (buffer (with_buffer (js ''2+a'')))))"
    by (simp add: buffer_with_buffer trim_letter preprocess_letter sanitize_letter)
  have b: "trim (buffer (with_buffer (js ''(()''))) \<noteq> []"
    by (simp add: buffer_with_buffer trim_unbalanced js_nonempty)
  have b1: "run fragment_host (js ''return '' @ trim (buffer (with_buffer (js ''(()''))))
      = Inl SyntaxError"
    by (simp add: buffer_with_buffer trim_unbalanced fragment_host_run [OF run_unbalanced])
  have b2: "run fragment_host
      (js ''return '' @ preprocessExpression (trim (buffer (with_buffer (js ''(()'')))))
      = Inl SyntaxError"
    by (simp add: buffer_with_buffer trim_unbalanced preprocess_unbalanced
        fragment_host_run [OF run_unbalanced])
  show ?thesis
    using evaluate_error_sentinel [OF a, of fragment_host] a1 a2
      evaluate_error_sentinel [OF b, of fragment_host] b1 b2
    by (simp add: Error_shown)
qed


section \<open>Memory operations on a buffer that does not evaluate\<close>

lemma evaluateForMemory_none:
  "trim (buffer s) = []
     \<or> \<not> sanitizeExpression (preprocessExpression (trim (buffer s)))
     \<or> (\<exists>e. run h (js ''return '' @ preprocessExpression (trim (buffer s))) = Inl e)
   \<Longrightarrow> evaluateForMemory h s = Inr None"
  by (auto simp: evaluateForMemory_def and_then_def try_catch_def)

text \<open>
  C10. When the buffer is empty after trimming, or fails the whitelist, or throws when
  run, \<open>memoryAdd\<close> and \<open>memorySub\<close> return without doing anything: the store (and so
  the memory register) is unchanged, and so are the buffer and the display; in
  particular the buffer is not set to "Error".
\<close>

theorem memory_update_skipped:
  "trim (buffer s) = []
     \<or> \<not> sanitizeExpression (preprocessExpression (trim (buffer s)))
     \<or> (\<exists>e. run h (js ''return '' @ preprocessExpression (trim (buffer s))) = Inl e)
   \<Longrightarrow> memoryAdd h s = Inr s \<and> memorySub h s = Inr s"
  by (simp add: memoryAdd_def memorySub_def and_then_def evaluateForMemory_none)

theorem memory_update_skipped_witness:
  "memoryAdd fragment_host (with_buffer []) = Inr (with_buffer [])
   \<and> memorySub fragment_host (with_buffer (js ''2+a'')) = Inr (with_buffer (js ''2+a''))
   \<and> memoryAdd fragment_host (with_buffer (js ''(()'')) = Inr (with_buffer (js ''(()''))"
proof -
  have a: "trim (buffer (with_buffer [])) = []"
    by (simp add: buffer_with_buffer trim_def)
  have b: "\<not> sanitizeExpression
      (preprocessExpression (trim (buffer (with_buffer (js ''2+a'')))))"
    by (simp add: buffer_with_buffer trim_letter preprocess_letter sanitize_letter)
  have c: "\<exists>e. run fragment_host
      (js ''return '' @ preprocessExpression (trim (buffer (with_buffer (js ''(()'')))))
      = Inl e"
    by (simp add: buffer_with_buffer trim_unbalanced preprocess_unbalanced
        fragment_host_run [OF run_unbalanced])
  show ?thesis
    using memory_update_skipped [of "with_buffer []" fragment_host] a
      memory_update_skipped [of "with_buffer (js ''2+a'')" fragment_host] b
      memory_update_skipped [of "with_buffer (js ''(()'')" fragment_host] c
    by blast
qed


section \<open>Leaving the error state\<close>








section \<open>Preprocessing\<close>

lemma replace_all_absent: "c \<notin> set e \<Longrightarrow> replace_all (c # p) r e = e"
  by (induction e) auto

lemma replace_all_single:
  "replace_all [c] r e = concat (map (\<lambda>x. if x = c then r else [x]) e)"
  by (induction e) auto

text \<open>
  On every expression that holds none of the code units U+00D7, U+00F7, U+00EF and
  U+00C3 (so on every expression in ASCII) the source rewrites as the specification
  says: each caret becomes \<open>**\<close>, each percent sign \<open>/100\<close>, all else is kept.
\<close>

lemma preprocess_caret_percent:
  assumes "set e \<inter> {0xD7, 0xF7, 0xEF, 0xC3} = {}"
  shows "preprocessExpression e = spec_preprocess e"
proof -
  have t: "replace_all times_glyph_pattern (js ''*'') e = e"
    using assms unfolding times_glyph_pattern_def by (intro replace_all_absent) auto
  have d: "replace_all divide_glyph_pattern (js ''/'') e = e"
    using assms unfolding divide_glyph_pattern_def by (intro replace_all_absent) auto
  have "replace_all (js ''%'') (js ''/100'') (replace_all (js ''^'') (js ''**'') e)
      = spec_preprocess e"
    using assms
  proof (induction e)
    case Nil
    then show ?case by (simp add: spec_preprocess_def)
  next
    case (Cons x xs)
    then have "replace_all (js ''%'') (js ''/100'') (replace_all (js ''^'') (js ''**'') xs)
        = spec_preprocess xs"
      by simp
    moreover have "x \<noteq> 0xD7" "x \<noteq> 0xF7" using Cons.prems by auto
    ultimately show ?case
      by (simp add: js_def replace_all_single spec_preprocess_def spec_rewrite_def)
  qed
  with t d show ?thesis
    by (cases e) (simp_all add: preprocessExpression_def spec_preprocess_def)
qed

lemma preprocess_fifty_percent: "preprocessExpression (js ''50%'') = js ''50/100''"
  by (simp add: buffer_eval)

lemma trim_fifty_percent: "trim (js ''50%'') = js ''50%''"
  by (simp add: buffer_eval)

lemma sanitize_fifty_by_hundred: "sanitizeExpression (js ''50/100'')"
  by (simp add: buffer_eval)

text \<open>
  With a percent sign the richer variant evaluates "50%" to "0.5"; the basic variants
  hand \<open>50%\<close> to the host unchanged, where it is a syntax error.
\<close>

lemma evaluate_fifty_percent:
  assumes "conforms h"
  shows "evaluateExpression h (with_buffer (js ''50%'')) = Inr (with_buffer (js ''0.5''))"
proof -
  have "run h (js ''return '' @ js ''50/100'') = Inr (JNum (Finite (1 / 2)))"
    using assms run_fifty_by_hundred by (rule conforms_run)
  moreover have "js ''50%'' \<noteq> []" "js ''0.5'' \<noteq> []" by (simp_all add: js_def)
  ultimately have "evaluateExpression h (with_buffer (js ''50%''))
      = Inr (with_buffer (format_result (JNum (Finite (1 / 2)))))"
    by (intro evaluate_with_buffer_returned)
      (simp_all add: trim_fifty_percent preprocess_fifty_percent sanitize_fifty_by_hundred
        format_half)
  then show ?thesis by (simp only: format_half)
qed

lemma evaluate_basic_fifty_percent:
  assumes "conforms h"
  shows "evaluateExpression_basic h (with_buffer (js ''50%'')) = Inr (with_buffer (js ''Error''))"
proof -
  have "run h (js ''return '' @ js ''50%'') = Inl SyntaxError"
    using assms run_fifty_percent by (rule conforms_run)
  moreover have "js ''50%'' \<noteq> []" by (simp add: js_def)
  ultimately show ?thesis
    by (intro evaluate_basic_with_buffer_thrown) (simp_all add: trim_fifty_percent)
qed

text \<open>
  C2, at the input where the code departs from it. The first two patterns of
  \<open>preprocessExpression\<close> are not the multiplication and division signs but the
  garbled forms of them that the script file holds, so a buffer with the real signs
  U+00D7 or U+00F7 is not rewritten, fails the whitelist, and evaluates to "Error"; the
  rewriting the specification describes gives \<open>2*3\<close> and \<open>6/2\<close>.
\<close>

theorem glyphs_not_rewritten:
  "preprocessExpression [0x32, 0xD7, 0x33] = [0x32, 0xD7, 0x33]
   \<and> spec_preprocess [0x32, 0xD7, 0x33] = js ''2*3''
   \<and> preprocessExpression [0x36, 0xF7, 0x32] = [0x36, 0xF7, 0x32]
   \<and> spec_preprocess [0x36, 0xF7, 0x32] = js ''6/2''
   \<and> evaluateExpression h (with_buffer [0x32, 0xD7, 0x33]) = Inr (with_buffer (js ''Error''))
   \<and> evaluateExpression h (with_buffer [0x36, 0xF7, 0x32]) = Inr (with_buffer (js ''Error''))"
proof -
  have a: "trim [0x32, 0xD7, 0x33] = [0x32, 0xD7, 0x33 :: jschar]"
    "trim [0x36, 0xF7, 0x32] = [0x36, 0xF7, 0x32 :: jschar]"
    by (simp_all add: buffer_eval)
  have b: "preprocessExpression [0x32, 0xD7, 0x33] = [0x32, 0xD7, 0x33]"
    "preprocessExpression [0x36, 0xF7, 0x32] = [0x36, 0xF7, 0x32]"
    by (simp_all add: buffer_eval)
  have c: "\<not> sanitizeExpression [0x32, 0xD7, 0x33]" "\<not> sanitizeExpression [0x36, 0xF7, 0x32]"
    by (simp_all add: buffer_eval)
  have d: "spec_preprocess [0x32, 0xD7, 0x33] = js ''2*3''"
    "spec_preprocess [0x36, 0xF7, 0x32] = js ''6/2''"
    by (simp_all add: spec_preprocess_def spec_rewrite_def js_def)
  have "evaluateExpression h (with_buffer [0x32, 0xD7, 0x33]) = Inr (with_buffer (js ''Error''))"
    by (intro evaluate_with_buffer_rejected) (simp_all add: a b c)
  moreover
  have "evaluateExpression h (with_buffer [0x36, 0xF7, 0x32]) = Inr (with_buffer (js ''Error''))"
    by (intro evaluate_with_buffer_rejected) (simp_all add: a b c)
  ultimately show ?thesis using b d by simp
qed


section \<open>Formatting of numeric results\<close>



lemma texts_nonempty:
  "js ''2+2'' \<noteq> []" "js ''10/4'' \<noteq> []" "js ''4'' \<noteq> []" "js ''2.5'' \<noteq> []"
  "js ''3'' \<noteq> []" "js ''0'' \<noteq> []" "js ''NaN'' \<noteq> []"
  by (simp_all add: js_def)




text \<open>
  The rounding at work: the sum of the doubles nearest 0.1 and 0.2 is not the double
  nearest 0.3; its 12-digit form is "0.300000000000", which reads back as the double
  nearest 0.3, whose string is "0.3".
\<close>

lemma lex_tenths:
  "lex (js ''0.1+0.2'') =
     Some [TNum (Finite (3602879701896397 / 36028797018963968)), TPlus,
           TNum (Finite (3602879701896397 / 18014398509481984))]"
  by (simp add: lex_eval)

lemma run_tenths:
  "run_expression (js ''0.1+0.2'') =
     Some (Inr (JNum (Finite (1351079888211149 / 4503599627370496))))"
  by (simp add: lex_tenths run_eval dbl_eval)

lemma toPrecision_tenths:
  "toPrecision (Finite (1351079888211149 / 4503599627370496)) 12 = js ''0.300000000000''"
  by (simp add: to_precision_eval dbl_eval js_def)

lemma parseFloat_tenths:
  "parseFloat (js ''0.300000000000'') = Finite (5404319552844595 / 18014398509481984)"
  by (simp add: parse_float_eval str_eval dbl_eval)

lemma toString_tenths:
  "number_toString (Finite (5404319552844595 / 18014398509481984)) = js ''0.3''"
  by (simp add: to_string_eval dbl_eval js_def)

lemma format_tenths:
  "format_result (JNum (Finite (1351079888211149 / 4503599627370496))) = js ''0.3''"
  by (simp add: format_result_def toPrecision_tenths parseFloat_tenths toString_tenths)

lemma buffers_tenths:
  "trim (js ''0.1+0.2'') = js ''0.1+0.2''"
  "preprocessExpression (js ''0.1+0.2'') = js ''0.1+0.2''"
  "sanitizeExpression (js ''0.1+0.2'')" "js ''0.1+0.2'' \<noteq> []" "js ''0.3'' \<noteq> []"
  by (simp_all add: buffer_eval)

lemma evaluate_tenths:
  assumes "conforms h"
  shows "evaluateExpression h (with_buffer (js ''0.1+0.2'')) = Inr (with_buffer (js ''0.3''))"
proof -
  have "run h (js ''return '' @ js ''0.1+0.2'')
      = Inr (JNum (Finite (1351079888211149 / 4503599627370496)))"
    using assms run_tenths by (rule conforms_run)
  then have "evaluateExpression h (with_buffer (js ''0.1+0.2''))
      = Inr (with_buffer (format_result (JNum (Finite (1351079888211149 / 4503599627370496)))))"
    by (intro evaluate_with_buffer_returned) (simp_all add: buffers_tenths format_tenths)
  then show ?thesis by (simp only: format_tenths)
qed


section \<open>The reciprocal of zero\<close>

lemma apply_switch_reciprocal:
  "apply_switch h (js ''reciprocal'') v
     = Some (if is_zero v then NaN else num_div (Finite 1) (to_number v))"
  by (simp add: apply_switch_def js_def)

lemma buffers_zero:
  "trim (js ''0'') = js ''0''" "preprocessExpression (js ''0'') = js ''0''"
  "sanitizeExpression (js ''0'')"
  by (simp_all add: buffer_eval)

text \<open>
  C7. When the buffer evaluates to zero (of either sign), \<open>applyFunction\<close> with
  \<open>reciprocal\<close> completes normally and sets the buffer to "NaN", the text that the
  formatting step shared with \<open>evaluateExpression\<close> gives for not-a-number.
\<close>

theorem reciprocal_of_zero:
  "trim (buffer s) \<noteq> [] \<Longrightarrow>
   sanitizeExpression (preprocessExpression (trim (buffer s))) \<Longrightarrow>
   run h (js ''return '' @ preprocessExpression (trim (buffer s))) = Inr v \<Longrightarrow>
   is_zero v \<Longrightarrow>
     applyFunction h (js ''reciprocal'') s = Inr (updateDisplay (s\<lparr>buffer := js ''NaN''\<rparr>))
     \<and> format_result (JNum NaN) = js ''NaN''"
  by (simp add: applyFunction_def and_then_def try_catch_def apply_switch_reciprocal
      format_NaN)

theorem reciprocal_of_zero_witness:
  "applyFunction fragment_host (js ''reciprocal'') (with_buffer (js ''0''))
     = Inr (with_buffer (js ''NaN''))"
proof -
  have a: "trim (buffer (with_buffer (js ''0''))) \<noteq> []"
    by (simp add: buffer_with_buffer buffers_zero texts_nonempty)
  have b: "sanitizeExpression (preprocessExpression (trim (buffer (with_buffer (js ''0'')))))"
    by (simp add: buffer_with_buffer buffers_zero)
  have c: "run fragment_host
      (js ''return '' @ preprocessExpression (trim (buffer (with_buffer (js ''0'')))))
      = Inr (JNum (Zero False))"
    by (simp add: buffer_with_buffer buffers_zero fragment_host_run [OF run_zero])
  have d: "is_zero (JNum (Zero False))" by simp
  show ?thesis
    using reciprocal_of_zero [OF a b c d] by (simp add: shown texts_nonempty)
qed


section \<open>The memory register\<close>


lemma isFinite_three: "isFinite (Finite 3)"
  by simp





end
